theory Spec2Isabelle
  imports Complex_Main
begin

section \<open>The paper-trading ledger of \<^verbatim>\<open>src/paper.ts\<close>\<close>

text \<open>
  The ledger is the module \<^verbatim>\<open>src/paper.ts\<close>: one process-wide \<^verbatim>\<open>state\<close> object, the
  helpers \<^verbatim>\<open>mark\<close>, \<^verbatim>\<open>ensurePos\<close> and \<^verbatim>\<open>applyFill\<close> that mutate it, and the exported
  \<^verbatim>\<open>placeOrder\<close>, \<^verbatim>\<open>getState\<close> and \<^verbatim>\<open>reset\<close>. Mutation of the module-level object is
  modelled by explicit state passing; a thrown \<^verbatim>\<open>Error\<close> is a value of a sum type,
  returned together with the state the throw leaves behind.
\<close>

subsection \<open>JavaScript numbers\<close>

text \<open>
  Every quantity of the ledger is a JavaScript \<^verbatim>\<open>number\<close>. The model keeps the special
  values the validation of \<^verbatim>\<open>placeOrder\<close> has to deal with (\<^verbatim>\<open>NaN\<close>, \<^verbatim>\<open>Infinity\<close>,
  \<^verbatim>\<open>-Infinity\<close>) and the rules of the language for them. On finite values it computes in
  the reals: the rounding, overflow and underflow of the 64-bit format are not modelled,
  and neither is the sign of zero (the program never divides by zero, and \<^verbatim>\<open>===\<close>,
  \<^verbatim>\<open><\<close>, \<^verbatim>\<open>>\<close> and the comparison of two \<^verbatim>\<open>Math.sign\<close> results do not tell \<^verbatim>\<open>-0\<close> from
  \<^verbatim>\<open>0\<close>). A statement about all finite inputs is therefore written in the operations of
  the program, product for product and quotient for quotient, and never replaces a
  rounded result by the real number it approximates; the concrete examples use small
  integers, on which the 64-bit format is exact.
\<close>

datatype jsnum = Fin real | PInf | NInf | NaN

text \<open>Unary minus.\<close>

fun jneg :: "jsnum \<Rightarrow> jsnum" where
  "jneg (Fin a) = Fin (- a)"
| "jneg PInf = NInf"
| "jneg NInf = PInf"
| "jneg NaN = NaN"

text \<open>\<^verbatim>\<open>x + y\<close>: the sum of opposite infinities is \<^verbatim>\<open>NaN\<close>.\<close>

fun jadd :: "jsnum \<Rightarrow> jsnum \<Rightarrow> jsnum" where
  "jadd NaN y = NaN"
| "jadd (Fin a) NaN = NaN"
| "jadd PInf NaN = NaN"
| "jadd NInf NaN = NaN"
| "jadd (Fin a) (Fin b) = Fin (a + b)"
| "jadd (Fin a) PInf = PInf"
| "jadd (Fin a) NInf = NInf"
| "jadd PInf (Fin b) = PInf"
| "jadd NInf (Fin b) = NInf"
| "jadd PInf PInf = PInf"
| "jadd NInf NInf = NInf"
| "jadd PInf NInf = NaN"
| "jadd NInf PInf = NaN"

text \<open>\<^verbatim>\<open>x - y\<close> is \<^verbatim>\<open>x + (-y)\<close>.\<close>

definition jsub :: "jsnum \<Rightarrow> jsnum \<Rightarrow> jsnum" where
  "jsub x y = jadd x (jneg y)"

text \<open>\<^verbatim>\<open>x * y\<close>: zero times an infinity is \<^verbatim>\<open>NaN\<close>.\<close>

fun jmul :: "jsnum \<Rightarrow> jsnum \<Rightarrow> jsnum" where
  "jmul NaN y = NaN"
| "jmul (Fin a) NaN = NaN"
| "jmul PInf NaN = NaN"
| "jmul NInf NaN = NaN"
| "jmul (Fin a) (Fin b) = Fin (a * b)"
| "jmul (Fin a) PInf = (if a = 0 then NaN else if 0 < a then PInf else NInf)"
| "jmul (Fin a) NInf = (if a = 0 then NaN else if 0 < a then NInf else PInf)"
| "jmul PInf (Fin b) = (if b = 0 then NaN else if 0 < b then PInf else NInf)"
| "jmul NInf (Fin b) = (if b = 0 then NaN else if 0 < b then NInf else PInf)"
| "jmul PInf PInf = PInf"
| "jmul NInf NInf = PInf"
| "jmul PInf NInf = NInf"
| "jmul NInf PInf = NInf"

text \<open>
  \<^verbatim>\<open>x / y\<close>. A finite value over an infinity is zero, an infinity over an infinity is
  \<^verbatim>\<open>NaN\<close>. The divisor zero is read as \<^verbatim>\<open>+0\<close>; the program guards both of its
  divisions against it.
\<close>

fun jdiv :: "jsnum \<Rightarrow> jsnum \<Rightarrow> jsnum" where
  "jdiv NaN y = NaN"
| "jdiv (Fin a) NaN = NaN"
| "jdiv PInf NaN = NaN"
| "jdiv NInf NaN = NaN"
| "jdiv (Fin a) (Fin b) =
     (if b = 0 then (if a = 0 then NaN else if 0 < a then PInf else NInf) else Fin (a / b))"
| "jdiv (Fin a) PInf = Fin 0"
| "jdiv (Fin a) NInf = Fin 0"
| "jdiv PInf (Fin b) = (if 0 \<le> b then PInf else NInf)"
| "jdiv NInf (Fin b) = (if 0 \<le> b then NInf else PInf)"
| "jdiv PInf PInf = NaN"
| "jdiv NInf NInf = NaN"
| "jdiv PInf NInf = NaN"
| "jdiv NInf PInf = NaN"

text \<open>\<^verbatim>\<open>Math.abs\<close>, \<^verbatim>\<open>Math.sign\<close> and \<^verbatim>\<open>Math.min\<close> of two arguments.\<close>

fun jabs :: "jsnum \<Rightarrow> jsnum" where
  "jabs (Fin a) = Fin \<bar>a\<bar>"
| "jabs PInf = PInf"
| "jabs NInf = PInf"
| "jabs NaN = NaN"

fun jsign :: "jsnum \<Rightarrow> jsnum" where
  "jsign (Fin a) = Fin (sgn a)"
| "jsign PInf = Fin 1"
| "jsign NInf = Fin (- 1)"
| "jsign NaN = NaN"

fun jmin :: "jsnum \<Rightarrow> jsnum \<Rightarrow> jsnum" where
  "jmin NaN y = NaN"
| "jmin (Fin a) NaN = NaN"
| "jmin PInf NaN = NaN"
| "jmin NInf NaN = NaN"
| "jmin (Fin a) (Fin b) = Fin (min a b)"
| "jmin (Fin a) PInf = Fin a"
| "jmin PInf (Fin b) = Fin b"
| "jmin PInf PInf = PInf"
| "jmin NInf y = NInf"
| "jmin (Fin a) NInf = NInf"
| "jmin PInf NInf = NInf"

text \<open>
  The comparisons \<^verbatim>\<open><\<close>, \<^verbatim>\<open>>\<close>, \<^verbatim>\<open><=\<close>, \<^verbatim>\<open>===\<close> and \<^verbatim>\<open>!==\<close>. Each of the first four is
  false as soon as one side is \<^verbatim>\<open>NaN\<close>; \<^verbatim>\<open>!==\<close> is the negation of \<^verbatim>\<open>===\<close>, so it is
  true then.
\<close>

fun jlt :: "jsnum \<Rightarrow> jsnum \<Rightarrow> bool" where
  "jlt NaN y = False"
| "jlt (Fin a) NaN = False"
| "jlt PInf y = False"
| "jlt NInf NaN = False"
| "jlt (Fin a) (Fin b) = (a < b)"
| "jlt (Fin a) PInf = True"
| "jlt (Fin a) NInf = False"
| "jlt NInf (Fin b) = True"
| "jlt NInf PInf = True"
| "jlt NInf NInf = False"

definition jgt :: "jsnum \<Rightarrow> jsnum \<Rightarrow> bool" where
  "jgt x y = jlt y x"

fun jeq :: "jsnum \<Rightarrow> jsnum \<Rightarrow> bool" where
  "jeq NaN y = False"
| "jeq (Fin a) (Fin b) = (a = b)"
| "jeq PInf PInf = True"
| "jeq NInf NInf = True"
| "jeq (Fin a) y = False"
| "jeq PInf y = False"
| "jeq NInf y = False"

definition jne :: "jsnum \<Rightarrow> jsnum \<Rightarrow> bool" where
  "jne x y = (if jeq x y then False else True)"

definition jle :: "jsnum \<Rightarrow> jsnum \<Rightarrow> bool" where
  "jle x y = (jlt x y \<or> jeq x y)"

text \<open>Truthiness: \<^verbatim>\<open>!x\<close> holds of a number when it is zero or \<^verbatim>\<open>NaN\<close>.\<close>

fun falsy :: "jsnum \<Rightarrow> bool" where
  "falsy (Fin a) = (a = 0)"
| "falsy NaN = True"
| "falsy PInf = False"
| "falsy NInf = False"

subsection \<open>Values and objects\<close>

text \<open>
  \<^verbatim>\<open>type Side = "buy" | "sell"\<close> and \<^verbatim>\<open>type Market = string\<close>. The types of the source are
  erased when it runs, and \<^verbatim>\<open>state.lastPrice\<close> and \<^verbatim>\<open>state.positions\<close> are plain objects:
  reading \<^verbatim>\<open>obj[market]\<close> finds the property the object owns, and otherwise the member
  of that name of \<^verbatim>\<open>Object.prototype\<close>. So a read can yield, besides a number or
  \<^verbatim>\<open>undefined\<close>, the object \<^verbatim>\<open>Object.prototype\<close> itself (for \<^verbatim>\<open>"__proto__"\<close>), one of its
  built-in functions (for \<^verbatim>\<open>"constructor"\<close>, \<^verbatim>\<open>"toString"\<close>, ...), or a side string.
\<close>

datatype order_side = Buy | Sell

datatype pos_side = Long | Short | Flat

type_synonym market = string

datatype objref = ObjectPrototype | BuiltinFn string

datatype jsval = VUndef | VNum jsnum | VStr pos_side | VObj objref

text \<open>
  \<^verbatim>\<open>ToNumber\<close>, as the arithmetic operators apply it: \<^verbatim>\<open>undefined\<close>, the strings
  \<^verbatim>\<open>"long"\<close>, \<^verbatim>\<open>"short"\<close>, \<^verbatim>\<open>"flat"\<close>, \<^verbatim>\<open>Object.prototype\<close> (whose string form is
  \<^verbatim>\<open>"[object Object]"\<close>) and a function (whose string form is its source text) all give
  \<^verbatim>\<open>NaN\<close>. Truthiness: \<^verbatim>\<open>undefined\<close> is falsy, objects and non-empty strings are truthy.
\<close>

fun toNum :: "jsval \<Rightarrow> jsnum" where
  "toNum (VNum n) = n"
| "toNum VUndef = NaN"
| "toNum (VStr t) = NaN"
| "toNum (VObj r) = NaN"

fun falsy_val :: "jsval \<Rightarrow> bool" where
  "falsy_val VUndef = True"
| "falsy_val (VNum n) = falsy n"
| "falsy_val (VStr t) = False"
| "falsy_val (VObj r) = False"

text \<open>
  An object with the five properties of \<^verbatim>\<open>interface Position\<close>, each present or absent
  (\<open>None\<close>). The program assigns only numbers to \<^verbatim>\<open>base\<close>, \<^verbatim>\<open>leverage\<close> and
  \<^verbatim>\<open>realizedPnl\<close> and only side strings to \<^verbatim>\<open>side\<close>; \<^verbatim>\<open>entry\<close> also receives the price,
  which is whatever \<^verbatim>\<open>mark\<close> returned. The objects \<^verbatim>\<open>ensurePos\<close> creates have all five.
\<close>

record position =
  side :: "pos_side option"
  base :: "jsnum option"
  entry :: "jsval option"
  leverage :: "jsnum option"
  realizedPnl :: "jsnum option"

definition noProps :: position where
  "noProps = \<lparr>side = None, base = None, entry = None, leverage = None, realizedPnl = None\<rparr>"

text \<open>
  Reading a property of an object whose prototype holds \<open>pr\<close>: the own property when
  present, the inherited one otherwise.
\<close>

definition inherit :: "position \<Rightarrow> position \<Rightarrow> position" where
  "inherit own pr =
     \<lparr>side = (case side own of Some t \<Rightarrow> Some t | None \<Rightarrow> side pr),
      base = (case base own of Some b \<Rightarrow> Some b | None \<Rightarrow> base pr),
      entry = (case entry own of Some v \<Rightarrow> Some v | None \<Rightarrow> entry pr),
      leverage = (case leverage own of Some l \<Rightarrow> Some l | None \<Rightarrow> leverage pr),
      realizedPnl = (case realizedPnl own of Some r \<Rightarrow> Some r | None \<Rightarrow> realizedPnl pr)\<rparr>"

text \<open>A property that is read as an operand of arithmetic: \<^verbatim>\<open>undefined\<close> counts as \<^verbatim>\<open>NaN\<close>.\<close>

fun numOpt :: "jsnum option \<Rightarrow> jsnum" where
  "numOpt None = NaN"
| "numOpt (Some n) = n"

fun toNumOpt :: "jsval option \<Rightarrow> jsnum" where
  "toNumOpt None = NaN"
| "toNumOpt (Some v) = toNum v"

subsection \<open>The data model\<close>

text \<open>
  The interfaces \<^verbatim>\<open>Fill\<close> and \<^verbatim>\<open>State\<close>. Field names that two interfaces share carry
  the interface's name in front, since record fields are global here. \<open>lastPrice\<close> and
  \<open>positions\<close> hold the own properties of the two objects. Two more fields hold what the
  program can reach through them and change: \<open>objectProto\<close>, the properties among the five
  that \<^verbatim>\<open>Object.prototype\<close> has been given, and \<open>builtinFn\<close>, the same for each built-in
  function of \<^verbatim>\<open>Object.prototype\<close>, by the name it is a member under. They are no part of
  \<^verbatim>\<open>state\<close> in the source, and \<^verbatim>\<open>reset\<close> does not restore them.
\<close>

record fill =
  fill_ts :: int
  fill_market :: market
  fill_side :: order_side
  fill_qty :: jsnum
  fill_price :: jsval
  fill_notional :: jsnum
  fill_leverage :: jsnum

record balances_rec =
  USDC :: jsnum

record state =
  balances :: balances_rec
  lastPrice :: "market \<rightharpoonup> jsnum"
  positions :: "market \<rightharpoonup> position"
  trades :: "fill list"
  objectProto :: position
  builtinFn :: "string \<Rightarrow> position"

text \<open>
  The two module constants read from the environment, \<^verbatim>\<open>startUSDC\<close> and
  \<^verbatim>\<open>defaultLev\<close>, are parameters of the model: \<^verbatim>\<open>Number(process.env.X || d)\<close> can be
  any number, \<^verbatim>\<open>NaN\<close> included.
\<close>

record config =
  startUSDC :: jsnum
  defaultLev :: jsnum

text \<open>
  The initial value of \<^verbatim>\<open>state\<close> in a fresh process, where \<^verbatim>\<open>Object.prototype\<close> and its
  functions have none of the five properties, and \<^verbatim>\<open>reset\<close>, which assigns the four
  fields of \<^verbatim>\<open>state\<close>.
\<close>

definition initState :: "config \<Rightarrow> state" where
  "initState cfg =
     \<lparr>balances = \<lparr>USDC = startUSDC cfg\<rparr>, lastPrice = Map.empty,
      positions = Map.empty, trades = [], objectProto = noProps,
      builtinFn = (\<lambda>n. noProps)\<rparr>"

definition reset :: "config \<Rightarrow> state \<Rightarrow> state" where
  "reset cfg s =
     s\<lparr>balances := (balances s)\<lparr>USDC := startUSDC cfg\<rparr>, lastPrice := Map.empty,
       positions := Map.empty, trades := []\<rparr>"

subsection \<open>Property reads through the prototype\<close>

text \<open>
  The members of \<^verbatim>\<open>Object.prototype\<close> that are functions. The twelfth member,
  \<^verbatim>\<open>__proto__\<close>, is an accessor: read on an object it gives the object's prototype, and
  assigned a value that is no object it does nothing.
\<close>

definition builtin_names :: "string list" where
  "builtin_names =
     [''constructor'', ''hasOwnProperty'', ''isPrototypeOf'', ''propertyIsEnumerable'',
      ''toLocaleString'', ''toString'', ''valueOf'', ''__defineGetter__'',
      ''__defineSetter__'', ''__lookupGetter__'', ''__lookupSetter__'']"

text \<open>
  What a plain object that does not own \<open>k\<close> reads under \<open>k\<close>, when \<open>op\<close> holds the
  properties \<^verbatim>\<open>Object.prototype\<close> has been given.
\<close>

definition protoGet :: "position \<Rightarrow> string \<Rightarrow> jsval" where
  "protoGet op k =
     (if k = ''__proto__'' then VObj ObjectPrototype
      else if k \<in> set builtin_names then VObj (BuiltinFn k)
      else if k = ''side'' then (case side op of Some t \<Rightarrow> VStr t | None \<Rightarrow> VUndef)
      else if k = ''base'' then (case base op of Some b \<Rightarrow> VNum b | None \<Rightarrow> VUndef)
      else if k = ''entry'' then (case entry op of Some v \<Rightarrow> v | None \<Rightarrow> VUndef)
      else if k = ''leverage'' then (case leverage op of Some l \<Rightarrow> VNum l | None \<Rightarrow> VUndef)
      else if k = ''realizedPnl'' then
        (case realizedPnl op of Some r \<Rightarrow> VNum r | None \<Rightarrow> VUndef)
      else VUndef)"

text \<open>\<^verbatim>\<open>state.lastPrice[market]\<close>, as a read.\<close>

definition lastPriceGet :: "state \<Rightarrow> market \<Rightarrow> jsval" where
  "lastPriceGet s k =
     (case lastPrice s k of Some v \<Rightarrow> VNum v | None \<Rightarrow> protoGet (objectProto s) k)"

text \<open>
  \<^verbatim>\<open>state.lastPrice[market] = price\<close> with a number on the right: the object gets or
  updates its own property, except that the name \<^verbatim>\<open>__proto__\<close>, when the object does not
  own it, reaches the setter of \<^verbatim>\<open>Object.prototype\<close>, which ignores a number.
\<close>

definition lastPriceSet :: "market \<Rightarrow> jsnum \<Rightarrow> state \<Rightarrow> state" where
  "lastPriceSet k v s =
     (if k = ''__proto__'' \<and> lastPrice s k = None then s
      else s\<lparr>lastPrice := (lastPrice s)(k \<mapsto> v)\<rparr>)"

text \<open>
  \<^verbatim>\<open>state.positions[market]\<close>, as a read: a position object the state owns (given with
  its own properties), \<^verbatim>\<open>Object.prototype\<close>, one of its functions, or a primitive value
  (\<^verbatim>\<open>undefined\<close>, or a number or side string that \<^verbatim>\<open>Object.prototype\<close> has been given).
\<close>

datatype target = OwnPos position | ProtoObj | FnObj string | Prim jsval

definition positionsGet :: "state \<Rightarrow> market \<Rightarrow> target" where
  "positionsGet s k =
     (case positions s k of
        Some pos \<Rightarrow> OwnPos pos
      | None \<Rightarrow>
          (case protoGet (objectProto s) k of
             VObj ObjectPrototype \<Rightarrow> ProtoObj
           | VObj (BuiltinFn n) \<Rightarrow> FnObj n
           | VUndef \<Rightarrow> Prim VUndef
           | VNum x \<Rightarrow> Prim (VNum x)
           | VStr t \<Rightarrow> Prim (VStr t)))"

text \<open>
  The five properties as read through an object: an own position and a function inherit
  from \<^verbatim>\<open>Object.prototype\<close> (a function by way of \<^verbatim>\<open>Function.prototype\<close>, which has none
  of the five), and so does a number or a string (by way of \<^verbatim>\<open>Number.prototype\<close> or
  \<^verbatim>\<open>String.prototype\<close>); \<^verbatim>\<open>Object.prototype\<close> inherits from nothing. Reading a property
  of \<^verbatim>\<open>undefined\<close> raises \<^verbatim>\<open>TypeError\<close> (\<open>None\<close>).
\<close>

fun readThrough :: "state \<Rightarrow> target \<Rightarrow> position option" where
  "readThrough s (OwnPos pos) = Some (inherit pos (objectProto s))"
| "readThrough s ProtoObj = Some (objectProto s)"
| "readThrough s (FnObj n) = Some (inherit (builtinFn s n) (objectProto s))"
| "readThrough s (Prim VUndef) = None"
| "readThrough s (Prim (VNum x)) = Some (objectProto s)"
| "readThrough s (Prim (VStr t)) = Some (objectProto s)"
| "readThrough s (Prim (VObj r)) = Some (objectProto s)"

subsection \<open>\<^verbatim>\<open>mark\<close>, \<^verbatim>\<open>ensurePos\<close> and \<^verbatim>\<open>applyFill\<close>\<close>

text \<open>
  \<^verbatim>\<open>function mark(market, price?) { if (price) state.lastPrice[market] = price;
  return state.lastPrice[market]; }\<close>
  The write is guarded by the truthiness of \<^verbatim>\<open>price\<close>, which \<^verbatim>\<open>placeOrder\<close> passes as a
  number or \<^verbatim>\<open>undefined\<close> (\<open>None\<close>, which is falsy). The model returns the value read and
  the state after the call.
\<close>

definition mark :: "market \<Rightarrow> jsnum option \<Rightarrow> state \<Rightarrow> jsval \<times> state" where
  "mark mkt price s =
     (let s' = (case price of
                  None \<Rightarrow> s
                | Some v \<Rightarrow> if falsy v then s else lastPriceSet mkt v s)
      in (lastPriceGet s' mkt, s'))"

text \<open>
  \<^verbatim>\<open>function ensurePos(market) { if (!state.positions[market]) state.positions[market] =
  {...}; return state.positions[market]; }\<close>
  An object is truthy, so a new position is stored only when the read gives a falsy
  primitive; what is returned is whatever the read gives then, a position or not.
\<close>

definition newPos :: "config \<Rightarrow> position" where
  "newPos cfg =
     \<lparr>side = Some Flat, base = Some (Fin 0), entry = Some (VNum (Fin 0)),
      leverage = Some (defaultLev cfg), realizedPnl = Some (Fin 0)\<rparr>"

definition ensurePos :: "config \<Rightarrow> market \<Rightarrow> state \<Rightarrow> target \<times> state" where
  "ensurePos cfg mkt s =
     (case positionsGet s mkt of
        OwnPos pos \<Rightarrow> (OwnPos pos, s)
      | ProtoObj \<Rightarrow> (ProtoObj, s)
      | FnObj n \<Rightarrow> (FnObj n, s)
      | Prim v \<Rightarrow>
          if falsy_val v
          then (OwnPos (newPos cfg), s\<lparr>positions := (positions s)(mkt \<mapsto> newPos cfg)\<rparr>)
          else (Prim v, s))"

text \<open>
  The body of \<^verbatim>\<open>applyFill\<close> after \<^verbatim>\<open>const pos = ensurePos(market)\<close>, as a function of
  the own properties of the object \<^verbatim>\<open>pos\<close>, with \<open>inh\<close> the properties it inherits: the
  assignments to \<^verbatim>\<open>pos\<close> in the order of the source, each read of a property through
  \<open>inherit\<close>. \<^verbatim>\<open>pos.side = pos.base>0 ? "long" : pos.base<0 ? "short" : "flat"\<close> reads the
  base already updated, and so do the two tests of the second branch. Every comparison
  and operator of the body gives the same result on \<^verbatim>\<open>undefined\<close> as on \<^verbatim>\<open>NaN\<close>.
\<close>

definition sideOfBase :: "jsnum \<Rightarrow> pos_side" where
  "sideOfBase b = (if jgt b (Fin 0) then Long else if jlt b (Fin 0) then Short else Flat)"

definition dirOf :: "order_side \<Rightarrow> jsnum" where
  "dirOf sd = (if sd = Buy then Fin 1 else Fin (- 1))"

definition fillPos ::
  "position \<Rightarrow> order_side \<Rightarrow> jsnum \<Rightarrow> jsval \<Rightarrow> jsnum \<Rightarrow> position \<Rightarrow> position" where
  "fillPos inh sd qty price lev pos =
     (let baseDelta = jmul (dirOf sd) qty;
          b = numOpt (base (inherit pos inh));
          e = toNumOpt (entry (inherit pos inh))
      in
      if jeq b (Fin 0) \<or> jeq (jsign b) (jsign baseDelta) then
        (let oldNotional = jmul (jabs b) e;
             newBase = jadd b baseDelta;
             addNotional = jmul (jabs baseDelta) (toNum price);
             pos1 = pos\<lparr>entry := Some (VNum
                      (if jne newBase (Fin 0)
                       then jdiv (jadd oldNotional addNotional) (jabs newBase) else Fin 0))\<rparr>;
             pos2 = pos1\<lparr>base := Some newBase\<rparr>;
             pos3 = pos2\<lparr>side := Some (sideOfBase (numOpt (base (inherit pos2 inh))))\<rparr>
         in pos3\<lparr>leverage := Some lev\<rparr>)
      else
        (let reduce = jmul (jmin (jabs b) (jabs baseDelta)) (jsign baseDelta);
             reducedAbs = jabs reduce;
             pnlPerUnit = (if jgt b (Fin 0) then jsub (toNum price) e
                           else jsub e (toNum price));
             pos1 = pos\<lparr>realizedPnl :=
                      Some (jadd (numOpt (realizedPnl (inherit pos inh)))
                                 (jmul pnlPerUnit reducedAbs))\<rparr>;
             pos2 = pos1\<lparr>base := Some (jadd (numOpt (base (inherit pos1 inh))) baseDelta)\<rparr>;
             nb = numOpt (base (inherit pos2 inh))
         in if jeq nb (Fin 0) then pos2\<lparr>side := Some Flat, entry := Some (VNum (Fin 0))\<rparr>
            else if jne (jsign nb) (jsign reduce)
            then pos2\<lparr>entry := Some price,
                      side := Some (if jgt nb (Fin 0) then Long else Short),
                      leverage := Some lev\<rparr>
            else pos2))"

text \<open>
  The kinds of \<^verbatim>\<open>throw\<close>: the three \<^verbatim>\<open>throw new Error(...)\<close> of \<^verbatim>\<open>placeOrder\<close> (the
  message text is left out), and the \<^verbatim>\<open>TypeError\<close> of the language.
\<close>

datatype rejection = NoPriceAvailable | InvalidQuantity | NotionalLimitExceeded | TypeError

text \<open>
  \<^verbatim>\<open>applyFill\<close>: the object \<^verbatim>\<open>pos\<close> is the one \<^verbatim>\<open>ensurePos\<close> returned, so every
  assignment to it changes that object: the position stored under the market,
  \<^verbatim>\<open>Object.prototype\<close>, or one of its functions. The module has \<^verbatim>\<open>export\<close> declarations,
  so its code is strict, and assigning to a property of a number or a string raises
  \<^verbatim>\<open>TypeError\<close>; both branches assign before anything else changes. The result is
  the error thrown, if any, and the state left.
\<close>

definition applyFill ::
  "config \<Rightarrow> market \<Rightarrow> order_side \<Rightarrow> jsnum \<Rightarrow> jsval \<Rightarrow> jsnum \<Rightarrow> state \<Rightarrow>
   rejection option \<times> state" where
  "applyFill cfg mkt sd qty price lev s =
     (case ensurePos cfg mkt s of
        (OwnPos pos, s1) \<Rightarrow>
          (None, s1\<lparr>positions :=
                      (positions s1)(mkt \<mapsto> fillPos (objectProto s1) sd qty price lev pos)\<rparr>)
      | (ProtoObj, s1) \<Rightarrow>
          (None, s1\<lparr>objectProto := fillPos noProps sd qty price lev (objectProto s1)\<rparr>)
      | (FnObj n, s1) \<Rightarrow>
          (None, s1\<lparr>builtinFn :=
                      (builtinFn s1)(n := fillPos (objectProto s1) sd qty price lev
                                            (builtinFn s1 n))\<rparr>)
      | (Prim v, s1) \<Rightarrow> (Some TypeError, s1))"

subsection \<open>\<^verbatim>\<open>placeOrder\<close>\<close>

text \<open>
  The argument of \<^verbatim>\<open>placeOrder\<close>. The fields \<^verbatim>\<open>sizeUsd\<close>, \<^verbatim>\<open>size\<close>, \<^verbatim>\<open>price\<close> and
  \<^verbatim>\<open>leverage\<close> are \<^verbatim>\<open>string|number\<close> or absent, and the function reads each one through
  \<^verbatim>\<open>Number(...)\<close> only; a field of the model is \<open>None\<close> when the source's is \<^verbatim>\<open>null\<close> or
  \<^verbatim>\<open>undefined\<close> and holds the value of \<^verbatim>\<open>Number(...)\<close> otherwise (\<^verbatim>\<open>NaN\<close> for a string
  that is no number, an infinity for \<^verbatim>\<open>"Infinity"\<close> or \<^verbatim>\<open>"1e999"\<close>).
\<close>

record params =
  p_market :: market
  p_order :: order_side
  p_sizeUsd :: "jsnum option"
  p_size :: "jsnum option"
  p_price :: "jsnum option"
  p_leverage :: "jsnum option"

record pos_view =
  v_side :: "pos_side option"
  v_base :: "jsnum option"
  v_entry :: "jsval option"
  v_realizedPnl :: "jsnum option"
  v_unrealizedPnl :: jsnum

record response =
  r_ok :: bool
  r_market :: market
  r_side :: order_side
  r_qty :: jsnum
  r_price :: jsval
  r_leverage :: jsnum
  r_position :: pos_view
  r_balances :: balances_rec
  r_trades :: "fill list"

text \<open>
  \<^verbatim>\<open>const qty = sizeUsd!=null ? (sizeUsd/p) : Number(params.size ?? 0)\<close>, with \<open>p\<close> the
  price as a number: the notional wins when both are given, and the quantity is zero
  when neither is.
\<close>

definition resolveQty :: "params \<Rightarrow> jsnum \<Rightarrow> jsnum" where
  "resolveQty prm p =
     (case p_sizeUsd prm of
        Some sizeUsd \<Rightarrow> jdiv sizeUsd p
      | None \<Rightarrow> (case p_size prm of Some sz \<Rightarrow> sz | None \<Rightarrow> Fin 0))"

text \<open>\<^verbatim>\<open>const lev = Number(params.leverage ?? defaultLev)\<close>.\<close>

definition levOf :: "config \<Rightarrow> params \<Rightarrow> jsnum" where
  "levOf cfg prm = (case p_leverage prm of Some l \<Rightarrow> l | None \<Rightarrow> defaultLev cfg)"

text \<open>\<^verbatim>\<open>xs.slice(-5)\<close>: the last five elements, all of them when there are fewer.\<close>

definition slice_last5 :: "'a list \<Rightarrow> 'a list" where
  "slice_last5 xs = drop (length xs - 5) xs"

text \<open>
  \<^verbatim>\<open>placeOrder\<close>, statement by statement. \<open>now\<close> is the value of \<^verbatim>\<open>Date.now()\<close>. The
  call to \<^verbatim>\<open>mark\<close> comes first, so each rejection is returned with the state after it.
  The price \<open>p\<close> is whatever \<^verbatim>\<open>mark\<close> read; the quotient and the product take it as a
  number.
\<close>

definition placeOrder ::
  "config \<Rightarrow> int \<Rightarrow> params \<Rightarrow> state \<Rightarrow> (rejection + response) \<times> state" where
  "placeOrder cfg now prm s =
     (let mkt = p_market prm;
          sd = p_order prm;
          lev = levOf cfg prm;
          pHint = p_price prm
      in case mark mkt pHint s of
        (p, s1) \<Rightarrow>
          if falsy_val p then (Inl NoPriceAvailable, s1)
          else
            (let qty = resolveQty prm (toNum p) in
             if falsy qty \<or> jle qty (Fin 0) then (Inl InvalidQuantity, s1)
             else
               (let notional = jmul qty (toNum p);
                    maxNotional = jmul (USDC (balances s1)) lev
                in if jgt notional maxNotional then (Inl NotionalLimitExceeded, s1)
                   else
                     (case applyFill cfg mkt sd qty p lev s1 of
                        (Some err, s2) \<Rightarrow> (Inl err, s2)
                      | (None, s2) \<Rightarrow>
                          (case readThrough s2 (positionsGet s2 mkt) of
                             None \<Rightarrow> (Inl TypeError, s2)
                           | Some pos \<Rightarrow>
                               (let b = numOpt (base pos);
                                    e = toNumOpt (entry pos);
                                    uPnl =
                                      (if jne b (Fin 0)
                                       then jmul (if jgt b (Fin 0)
                                                  then jsub (toNum p) e
                                                  else jsub e (toNum p))
                                                 (jabs b)
                                       else Fin 0);
                                    fl = \<lparr>fill_ts = now, fill_market = mkt, fill_side = sd,
                                          fill_qty = qty, fill_price = p,
                                          fill_notional = notional, fill_leverage = lev\<rparr>;
                                    s3 = s2\<lparr>trades := trades s2 @ [fl]\<rparr>
                                in (Inr \<lparr>r_ok = True, r_market = mkt, r_side = sd,
                                         r_qty = qty, r_price = p, r_leverage = lev,
                                         r_position =
                                           \<lparr>v_side = side pos, v_base = base pos,
                                            v_entry = entry pos,
                                            v_realizedPnl = realizedPnl pos,
                                            v_unrealizedPnl = uPnl\<rparr>,
                                         r_balances = balances s3,
                                         r_trades = slice_last5 (trades s3)\<rparr>,
                                    s3)))))))"

text \<open>\<^verbatim>\<open>getState\<close> returns the state object and changes nothing.\<close>

definition getState :: "state \<Rightarrow> state \<times> state" where
  "getState s = (s, s)"

subsection \<open>Runs of fills and of orders\<close>

text \<open>
  A run of calls to \<^verbatim>\<open>applyFill\<close> on one market, each given as side, quantity, price and
  leverage, and a run of calls to \<^verbatim>\<open>placeOrder\<close>, each given as the clock value and
  the request. A call that throws leaves its state to the next one.
\<close>

fun applyFills ::
  "config \<Rightarrow> market \<Rightarrow> (order_side \<times> jsnum \<times> jsval \<times> jsnum) list \<Rightarrow> state \<Rightarrow> state" where
  "applyFills cfg mkt [] s = s"
| "applyFills cfg mkt ((sd, qty, price, lev) # fs) s =
     applyFills cfg mkt fs (snd (applyFill cfg mkt sd qty price lev s))"

fun placeOrders :: "config \<Rightarrow> (int \<times> params) list \<Rightarrow> state \<Rightarrow> state" where
  "placeOrders cfg [] s = s"
| "placeOrders cfg ((now, prm) # rest) s = placeOrders cfg rest (snd (placeOrder cfg now prm s))"

text \<open>
  The invariant the data model states for a position: the stored side is the sign of the
  base quantity.
\<close>

definition side_matches_base :: "position \<Rightarrow> bool" where
  "side_matches_base pos =
     ((side pos = Some Long) = jgt (numOpt (base pos)) (Fin 0) \<and>
      (side pos = Some Short) = jlt (numOpt (base pos)) (Fin 0) \<and>
      (side pos = Some Flat) = jeq (numOpt (base pos)) (Fin 0))"

text \<open>
  The spec's words for a quantity that passes validation, "a finite positive number",
  for a position that is flat, and the side that closes what an order of a given side
  opened.
\<close>

fun finite_positive :: "jsnum \<Rightarrow> bool" where
  "finite_positive (Fin a) = (0 < a)"
| "finite_positive PInf = False"
| "finite_positive NInf = False"
| "finite_positive NaN = False"



text \<open>
  The state with the own entries of one market replaced, mark price and position both,
  by arbitrary ones (\<open>None\<close> deletes the entry).
\<close>

definition set_other :: "market \<Rightarrow> jsnum option \<Rightarrow> position option \<Rightarrow> state \<Rightarrow> state" where
  "set_other m x y s =
     s\<lparr>lastPrice := (lastPrice s)(m := x), positions := (positions s)(m := y)\<rparr>"

text \<open>
  The configuration of the defaults (\<^verbatim>\<open>PAPER_BASE_USDC\<close> unset gives 10000,
  \<^verbatim>\<open>PAPER_DEFAULT_LEVERAGE\<close> unset gives 2) and a request with every optional field
  absent, from which the examples are built.
\<close>

definition cfg0 :: config where
  "cfg0 = \<lparr>startUSDC = Fin 10000, defaultLev = Fin 2\<rparr>"

definition order0 :: "market \<Rightarrow> order_side \<Rightarrow> params" where
  "order0 mkt sd =
     \<lparr>p_market = mkt, p_order = sd, p_sizeUsd = None, p_size = None, p_price = None,
      p_leverage = None\<rparr>"

section \<open>Properties\<close>

subsection \<open>Auxiliary facts\<close>

text \<open>The definitions that evaluate a call on a concrete input.\<close>

lemmas eval_defs =
  applyFill_def ensurePos_def positionsGet_def protoGet_def builtin_names_def lastPriceGet_def
  lastPriceSet_def mark_def inherit_def noProps_def newPos_def fillPos_def dirOf_def
  sideOfBase_def jgt_def jne_def jle_def jsub_def cfg0_def order0_def placeOrder_def
  resolveQty_def levOf_def slice_last5_def initState_def Let_def

text \<open>What \<^verbatim>\<open>mark\<close> returns and what it and \<^verbatim>\<open>applyFill\<close> leave.\<close>

lemma mark_snd:
  "snd (mark mkt price s) =
     (case price of None \<Rightarrow> s | Some v \<Rightarrow> if falsy v then s else lastPriceSet mkt v s)"
  by (simp add: mark_def Let_def)

lemma mark_fst: "fst (mark mkt price s) = lastPriceGet (snd (mark mkt price s)) mkt"
  by (simp add: mark_def Let_def)

lemma mark_frame:
  "balances (snd (mark mkt price s)) = balances s"
  "positions (snd (mark mkt price s)) = positions s"
  "trades (snd (mark mkt price s)) = trades s"
  "objectProto (snd (mark mkt price s)) = objectProto s"
  "builtinFn (snd (mark mkt price s)) = builtinFn s"
  by (simp_all add: mark_snd lastPriceSet_def split: option.split)

lemma applyFill_frame:
  "balances (snd (applyFill cfg mkt sd qty price lev s)) = balances s"
  "trades (snd (applyFill cfg mkt sd qty price lev s)) = trades s"
  "lastPrice (snd (applyFill cfg mkt sd qty price lev s)) = lastPrice s"
  by (simp_all add: applyFill_def ensurePos_def split: target.split prod.split)

text \<open>
  The ways through \<^verbatim>\<open>placeOrder\<close>: the three throws, each with the state \<^verbatim>\<open>mark\<close> left,
  and the call of \<^verbatim>\<open>applyFill\<close>, after which the order is recorded unless a
  \<^verbatim>\<open>TypeError\<close> was raised.
\<close>

lemma placeOrder_no_price:
  assumes "falsy_val (fst (mark (p_market prm) (p_price prm) s))"
  shows "placeOrder cfg now prm s =
           (Inl NoPriceAvailable, snd (mark (p_market prm) (p_price prm) s))"
  using assms by (cases "mark (p_market prm) (p_price prm) s") (simp add: placeOrder_def)

lemma placeOrder_invalid_qty:
  assumes "fst (mark (p_market prm) (p_price prm) s) = pv" and "\<not> falsy_val pv"
    and "falsy (resolveQty prm (toNum pv)) \<or> jle (resolveQty prm (toNum pv)) (Fin 0)"
  shows "placeOrder cfg now prm s =
           (Inl InvalidQuantity, snd (mark (p_market prm) (p_price prm) s))"
  using assms by (cases "mark (p_market prm) (p_price prm) s") (simp add: placeOrder_def)

lemma placeOrder_over_limit:
  assumes "fst (mark (p_market prm) (p_price prm) s) = pv" and "\<not> falsy_val pv"
    and "\<not> (falsy (resolveQty prm (toNum pv)) \<or> jle (resolveQty prm (toNum pv)) (Fin 0))"
    and "jgt (jmul (resolveQty prm (toNum pv)) (toNum pv))
             (jmul (USDC (balances s)) (levOf cfg prm))"
  shows "placeOrder cfg now prm s =
           (Inl NotionalLimitExceeded, snd (mark (p_market prm) (p_price prm) s))"
proof (cases "mark (p_market prm) (p_price prm) s")
  case (Pair p s1)
  then have "balances s1 = balances s"
    using mark_frame(1) [of "p_market prm" "p_price prm" s] by simp
  with Pair assms show ?thesis
    by (simp add: placeOrder_def)
qed

lemma placeOrder_filled:
  assumes "fst (mark (p_market prm) (p_price prm) s) = pv" and "\<not> falsy_val pv"
    and "\<not> (falsy (resolveQty prm (toNum pv)) \<or> jle (resolveQty prm (toNum pv)) (Fin 0))"
    and "\<not> jgt (jmul (resolveQty prm (toNum pv)) (toNum pv))
               (jmul (USDC (balances s)) (levOf cfg prm))"
    and "s2 = snd (applyFill cfg (p_market prm) (p_order prm) (resolveQty prm (toNum pv)) pv
                    (levOf cfg prm) (snd (mark (p_market prm) (p_price prm) s)))"
  shows "(fst (placeOrder cfg now prm s) = Inl TypeError \<and> snd (placeOrder cfg now prm s) = s2) \<or>
         ((\<exists>r. fst (placeOrder cfg now prm s) = Inr r) \<and>
          snd (placeOrder cfg now prm s) =
            s2\<lparr>trades := trades s @
              [\<lparr>fill_ts = now, fill_market = p_market prm, fill_side = p_order prm,
                fill_qty = resolveQty prm (toNum pv), fill_price = pv,
                fill_notional = jmul (resolveQty prm (toNum pv)) (toNum pv),
                fill_leverage = levOf cfg prm\<rparr>]\<rparr>)"
proof (cases "mark (p_market prm) (p_price prm) s")
  case (Pair p s1)
  with assms(1) have p: "p = pv" by simp
  from Pair have b: "balances s1 = balances s" and t: "trades s1 = trades s"
    using mark_frame [of "p_market prm" "p_price prm" s] by simp_all
  obtain err s2' where af: "applyFill cfg (p_market prm) (p_order prm)
      (resolveQty prm (toNum pv)) pv (levOf cfg prm) s1 = (err, s2')"
    by (cases "applyFill cfg (p_market prm) (p_order prm)
      (resolveQty prm (toNum pv)) pv (levOf cfg prm) s1")
  with assms(5) Pair have s2: "s2' = s2" by simp
  have tr: "trades s2 = trades s"
    using applyFill_frame(2) [of cfg "p_market prm" "p_order prm" "resolveQty prm (toNum pv)"
        pv "levOf cfg prm" s1] af s2 t by simp
  show ?thesis
  proof (cases err)
    case (Some e)
    have "e = TypeError"
      using af Some by (auto simp: applyFill_def split: target.splits prod.splits)
    with Some af s2 Pair p assms(2-4) b show ?thesis
      by (simp add: placeOrder_def)
  next
    case None
    with af s2 Pair p assms(2-4) b tr show ?thesis
      by (cases "readThrough s2 (positionsGet s2 (p_market prm))")
         (simp_all add: placeOrder_def Let_def)
  qed
qed

lemma placeOrder_outcomes:
  obtains
    (no_price) "falsy_val (fst (mark (p_market prm) (p_price prm) s))"
  | (invalid_qty) pv where "fst (mark (p_market prm) (p_price prm) s) = pv" "\<not> falsy_val pv"
      "falsy (resolveQty prm (toNum pv)) \<or> jle (resolveQty prm (toNum pv)) (Fin 0)"
  | (over_limit) pv where "fst (mark (p_market prm) (p_price prm) s) = pv" "\<not> falsy_val pv"
      "\<not> (falsy (resolveQty prm (toNum pv)) \<or> jle (resolveQty prm (toNum pv)) (Fin 0))"
      "jgt (jmul (resolveQty prm (toNum pv)) (toNum pv))
           (jmul (USDC (balances s)) (levOf cfg prm))"
  | (filled) pv where "fst (mark (p_market prm) (p_price prm) s) = pv" "\<not> falsy_val pv"
      "\<not> (falsy (resolveQty prm (toNum pv)) \<or> jle (resolveQty prm (toNum pv)) (Fin 0))"
      "\<not> jgt (jmul (resolveQty prm (toNum pv)) (toNum pv))
             (jmul (USDC (balances s)) (levOf cfg prm))"
  by fastforce

text \<open>
  The test \<^verbatim>\<open>!qty || qty<=0\<close> lets through the finite positive numbers and
  \<^verbatim>\<open>Infinity\<close>, and nothing else.
\<close>

lemma invalid_qty_iff:
  "(falsy q \<or> jle q (Fin 0)) = (\<not> (finite_positive q \<or> q = PInf))"
  by (cases q) (auto simp: jle_def)









text \<open>
  The second branch of \<^verbatim>\<open>applyFill\<close> on a position with finite base \<open>b\<close>, with \<open>d\<close> the
  signed quantity of a fill against it. When the fill is the larger one (a flip), only
  the realized PnL and the base change: the entry price, the side and the leverage stay
  those of the old position. When it is the smaller one (a partial reduce), the entry
  price becomes the fill price and the leverage that of the order.
\<close>

lemma fillPos_flip:
  assumes "base pos = Some (Fin b)" and "entry pos = Some (VNum e)"
    and "realizedPnl pos = Some r"
    and "d = (if sd = Buy then q else - q)"
    and "(0 < b \<and> d < 0) \<or> (b < 0 \<and> 0 < d)" and "\<bar>b\<bar> < \<bar>d\<bar>"
  shows "fillPos inh sd (Fin q) price lev pos =
           pos\<lparr>realizedPnl := Some (jadd r (jmul (if 0 < b then jsub (toNum price) e
                                                   else jsub e (toNum price)) (Fin \<bar>b\<bar>))),
               base := Some (jadd (Fin b) (Fin d))\<rparr>"
proof -
  from assms(5,6) have "sgn b \<noteq> sgn d" "b \<noteq> 0" "b + d \<noteq> 0"
    "sgn (b + d) = sgn (min \<bar>b\<bar> \<bar>d\<bar> * sgn d)" "\<bar>min \<bar>b\<bar> \<bar>d\<bar> * sgn d\<bar> = \<bar>b\<bar>"
    by (auto simp: sgn_real_def min_def abs_real_def split: if_splits)
  with assms(1-4) show ?thesis
    by (cases sd)
       (simp_all add: fillPos_def dirOf_def jgt_def jne_def inherit_def Let_def)
qed

lemma fillPos_partial_reduce:
  assumes "base pos = Some (Fin b)" and "entry pos = Some (VNum e)"
    and "realizedPnl pos = Some r"
    and "d = (if sd = Buy then q else - q)"
    and "(0 < b \<and> d < 0) \<or> (b < 0 \<and> 0 < d)" and "\<bar>d\<bar> < \<bar>b\<bar>"
  shows "fillPos inh sd (Fin q) price lev pos =
           pos\<lparr>realizedPnl := Some (jadd r (jmul (if 0 < b then jsub (toNum price) e
                                                   else jsub e (toNum price)) (Fin \<bar>d\<bar>))),
               base := Some (jadd (Fin b) (Fin d)), entry := Some price,
               side := Some (if 0 < b then Long else Short), leverage := Some lev\<rparr>"
proof -
  from assms(5,6) have "sgn b \<noteq> sgn d" "b \<noteq> 0" "b + d \<noteq> 0"
    "sgn (b + d) \<noteq> sgn (min \<bar>b\<bar> \<bar>d\<bar> * sgn d)" "\<bar>min \<bar>b\<bar> \<bar>d\<bar> * sgn d\<bar> = \<bar>d\<bar>"
    "(0 < b + d) = (0 < b)"
    by (auto simp: sgn_real_def min_def abs_real_def split: if_splits)
  with assms(1-4) show ?thesis
    by (cases sd)
       (simp_all add: fillPos_def dirOf_def jgt_def jne_def inherit_def Let_def)
qed

text \<open>
  What an order on a market leaves alone when \<^verbatim>\<open>state.positions[market]\<close> is not
  \<^verbatim>\<open>Object.prototype\<close>.
\<close>

lemma mark_lastPrice_other:
  assumes "m' \<noteq> mkt"
  shows "lastPrice (snd (mark mkt price s)) m' = lastPrice s m'"
  using assms by (simp add: mark_snd lastPriceSet_def split: option.split)

lemma positionsGet_cong:
  assumes "positions t k = positions s k" and "objectProto t = objectProto s"
  shows "positionsGet t k = positionsGet s k"
  unfolding positionsGet_def assms ..

lemma lastPriceGet_cong:
  assumes "lastPrice t k = lastPrice s k" and "objectProto t = objectProto s"
  shows "lastPriceGet t k = lastPriceGet s k"
  unfolding lastPriceGet_def assms ..

lemma applyFill_frame_other:
  assumes "positionsGet s mkt \<noteq> ProtoObj"
  shows "objectProto (snd (applyFill cfg mkt sd qty price lev s)) = objectProto s"
    and "m' \<noteq> mkt \<Longrightarrow> positions (snd (applyFill cfg mkt sd qty price lev s)) m' = positions s m'"
    and "positionsGet s mkt \<noteq> FnObj n \<Longrightarrow>
           builtinFn (snd (applyFill cfg mkt sd qty price lev s)) n = builtinFn s n"
  using assms
  by (cases "positionsGet s mkt"; simp add: applyFill_def ensurePos_def; fail)+

lemma placeOrder_state_cases:
  "snd (placeOrder cfg now prm s) = snd (mark (p_market prm) (p_price prm) s) \<or>
   (\<exists>sd qty pv lev ts.
      snd (placeOrder cfg now prm s) =
        (snd (applyFill cfg (p_market prm) sd qty pv lev
                (snd (mark (p_market prm) (p_price prm) s))))\<lparr>trades := ts\<rparr>)"
proof (cases rule: placeOrder_outcomes [where prm = prm and s = s and cfg = cfg])
  case no_price
  then show ?thesis by (simp add: placeOrder_no_price)
next
  case (invalid_qty pv)
  then show ?thesis by (simp add: placeOrder_invalid_qty)
next
  case (over_limit pv)
  then show ?thesis by (simp add: placeOrder_over_limit)
next
  case (filled pv)
  let ?s2 = "snd (applyFill cfg (p_market prm) (p_order prm) (resolveQty prm (toNum pv)) pv
                    (levOf cfg prm) (snd (mark (p_market prm) (p_price prm) s)))"
  from placeOrder_filled [OF filled refl, of now]
  consider "snd (placeOrder cfg now prm s) = ?s2"
    | ts where "snd (placeOrder cfg now prm s) = ?s2\<lparr>trades := ts\<rparr>"
    by blast
  then show ?thesis
  proof cases
    case 1
    then have "snd (placeOrder cfg now prm s) = ?s2\<lparr>trades := trades ?s2\<rparr>" by simp
    then show ?thesis by blast
  next
    case 2
    then show ?thesis by blast
  qed
qed

lemma placeOrder_frame_other:
  assumes "m' \<noteq> p_market prm" and "positionsGet s (p_market prm) \<noteq> ProtoObj"
  shows "lastPrice (snd (placeOrder cfg now prm s)) m' = lastPrice s m'"
    and "positions (snd (placeOrder cfg now prm s)) m' = positions s m'"
    and "objectProto (snd (placeOrder cfg now prm s)) = objectProto s"
    and "positionsGet s (p_market prm) \<noteq> FnObj n \<Longrightarrow>
           builtinFn (snd (placeOrder cfg now prm s)) n = builtinFn s n"
proof -
  let ?s1 = "snd (mark (p_market prm) (p_price prm) s)"
  have g: "positionsGet ?s1 (p_market prm) = positionsGet s (p_market prm)"
    by (rule positionsGet_cong) (simp_all add: mark_frame)
  with assms(2) have np: "positionsGet ?s1 (p_market prm) \<noteq> ProtoObj" by simp
  have a: "lastPrice ?s1 m' = lastPrice s m'"
    by (rule mark_lastPrice_other [OF assms(1)])
  note f = applyFill_frame_other [OF np] applyFill_frame
  from placeOrder_state_cases [of cfg now prm s]
  show "lastPrice (snd (placeOrder cfg now prm s)) m' = lastPrice s m'"
    using a by (auto simp add: f)
  from placeOrder_state_cases [of cfg now prm s]
  show "positions (snd (placeOrder cfg now prm s)) m' = positions s m'"
    using assms(1) by (auto simp add: f mark_frame)
  from placeOrder_state_cases [of cfg now prm s]
  show "objectProto (snd (placeOrder cfg now prm s)) = objectProto s"
    by (auto simp add: f mark_frame)
  assume "positionsGet s (p_market prm) \<noteq> FnObj n"
  with g have "positionsGet ?s1 (p_market prm) \<noteq> FnObj n" by simp
  with placeOrder_state_cases [of cfg now prm s]
  show "builtinFn (snd (placeOrder cfg now prm s)) n = builtinFn s n"
    by (auto simp add: f mark_frame)
qed

text \<open>An order commutes with a change of another market's own entries.\<close>

lemma mark_set_other:
  assumes "m' \<noteq> mkt"
  shows "mark mkt price (set_other m' x y s) =
           (fst (mark mkt price s), set_other m' x y (snd (mark mkt price s)))"
  using assms
  by (auto simp add: mark_def lastPriceGet_def lastPriceSet_def set_other_def fun_upd_twist
      Let_def split: option.split)

lemma applyFill_set_other:
  assumes "m' \<noteq> mkt"
  shows "applyFill cfg mkt sd qty price lev (set_other m' x y s) =
           (fst (applyFill cfg mkt sd qty price lev s),
            set_other m' x y (snd (applyFill cfg mkt sd qty price lev s)))"
proof -
  have g: "positionsGet (set_other m' x y s) mkt = positionsGet s mkt"
    by (rule positionsGet_cong) (simp_all add: set_other_def assms assms [symmetric])
  show ?thesis
    using assms
    by (cases "positionsGet s mkt")
       (simp_all add: applyFill_def ensurePos_def g, simp_all add: set_other_def fun_upd_twist)
qed

lemma placeOrder_set_other:
  assumes "m' \<noteq> p_market prm"
  shows "placeOrder cfg now prm (set_other m' x y s) =
           (fst (placeOrder cfg now prm s), set_other m' x y (snd (placeOrder cfg now prm s)))"
proof (cases "mark (p_market prm) (p_price prm) s")
  case (Pair p s1)
  then have m: "mark (p_market prm) (p_price prm) (set_other m' x y s) =
                  (p, set_other m' x y s1)"
    using mark_set_other [OF assms, of "p_price prm" x y s] by simp
  have h: "trades (set_other m' x y t) = trades t"
          "balances (set_other m' x y t) = balances t"
          "objectProto (set_other m' x y t) = objectProto t"
          "builtinFn (set_other m' x y t) = builtinFn t"
          "set_other m' x y t\<lparr>trades := ts\<rparr> = set_other m' x y (t\<lparr>trades := ts\<rparr>)" for t ts
    by (simp_all add: set_other_def)
  have g: "positionsGet (set_other m' x y t) (p_market prm) = positionsGet t (p_market prm)"
    for t
    by (rule positionsGet_cong) (simp_all add: set_other_def assms assms [symmetric])
  have r: "readThrough (set_other m' x y t) tg = readThrough t tg" for t tg
    by (cases "(t, tg)" rule: readThrough.cases) (simp_all add: h)
  show ?thesis
  proof (cases "applyFill cfg (p_market prm) (p_order prm) (resolveQty prm (toNum p)) p
                  (levOf cfg prm) s1")
    case af: (Pair err s2)
    then have af': "applyFill cfg (p_market prm) (p_order prm) (resolveQty prm (toNum p)) p
                  (levOf cfg prm) (set_other m' x y s1) = (err, set_other m' x y s2)"
      using applyFill_set_other [OF assms, of cfg "p_order prm" "resolveQty prm (toNum p)" p
          "levOf cfg prm" x y s1] by simp
    show ?thesis
      by (cases err; cases "readThrough s2 (positionsGet s2 (p_market prm))")
         (simp_all add: placeOrder_def Pair m af af' g h r Let_def)
  qed
qed

subsection \<open>Fills that reduce or flip a position\<close>

text \<open>
  Claim C1: an opposite-direction fill larger than the open quantity re-opens the position
  in the new direction, with the fill price as entry price, the new side, and the
  leverage of this order; long 5 at 100 followed by a sell of 8 at 90 books -50 and
  leaves short 3 at entry 90.

  The program does not do this. Its test for the flip,
  \<^verbatim>\<open>Math.sign(pos.base)!==Math.sign(reduce)\<close>, runs after \<^verbatim>\<open>pos.base += baseDelta\<close>, and
  \<^verbatim>\<open>reduce\<close> has the sign of the fill: on a flip the two signs agree, so the assignments
  to \<^verbatim>\<open>entry\<close>, \<^verbatim>\<open>side\<close> and \<^verbatim>\<open>leverage\<close> are skipped. Two orders on a fresh ledger, a buy of
  5 at 100 and a sell of 8 at 90 with leverage 3, book -50 and leave base -3, but with
  entry 100, side long and leverage 2 (\<open>fillPos_flip\<close> is the general fact).
\<close>

theorem C1_flip_keeps_old_entry_and_side:
  "positions (placeOrders cfg0
      [(1, (order0 ''BTC_USD'' Buy)\<lparr>p_size := Some (Fin 5), p_price := Some (Fin 100)\<rparr>),
       (2, (order0 ''BTC_USD'' Sell)\<lparr>p_size := Some (Fin 8), p_price := Some (Fin 90),
                                      p_leverage := Some (Fin 3)\<rparr>)]
      (initState cfg0)) ''BTC_USD'' =
   Some \<lparr>side = Some Long, base = Some (Fin (- 3)), entry = Some (VNum (Fin 100)),
         leverage = Some (Fin 2), realizedPnl = Some (Fin (- 50))\<rparr>"
  by (simp add: eval_defs)

text \<open>
  Claim C2: an opposite-direction fill smaller than the open quantity adds
  \<open>reduced \<times> (price - entry)\<close> (long) or \<open>reduced \<times> (entry - price)\<close> (short) to the
  realized PnL and leaves the entry price as it was; long 10 at 100 followed by a sell of
  4 at 110 gives realized PnL 40, base 6 and entry still 100.

  The realized PnL and the base are as claimed, the entry price is not: on a partial
  reduce the signs of the new base and of \<^verbatim>\<open>reduce\<close> differ, so the branch meant for the
  flip runs and overwrites \<^verbatim>\<open>entry\<close> with the fill price. The two orders leave entry 110
  (\<open>fillPos_partial_reduce\<close> is the general fact).
\<close>

theorem C2_partial_reduce_overwrites_entry:
  "positions (placeOrders cfg0
      [(1, (order0 ''BTC_USD'' Buy)\<lparr>p_size := Some (Fin 10), p_price := Some (Fin 100)\<rparr>),
       (2, (order0 ''BTC_USD'' Sell)\<lparr>p_size := Some (Fin 4), p_price := Some (Fin 110)\<rparr>)]
      (initState cfg0)) ''BTC_USD'' =
   Some \<lparr>side = Some Long, base = Some (Fin 6), entry = Some (VNum (Fin 110)),
         leverage = Some (Fin 2), realizedPnl = Some (Fin 40)\<rparr>"
  by (simp add: eval_defs)

text \<open>
  Claim C3: after every sequence of fills on one market the stored side is the sign of
  the base quantity (long iff positive, short iff negative, flat iff zero).

  The flip of C1 breaks it: after a buy of 5 at 100 and a sell of 8 at 90 the base is -3
  and the stored side is still long.
\<close>

theorem C3_side_stale_after_flip:
  "map_option side_matches_base
     (positions (applyFills cfg0 ''BTC_USD''
        [(Buy, Fin 5, VNum (Fin 100), Fin 2), (Sell, Fin 8, VNum (Fin 90), Fin 2)]
        (initState cfg0))
        ''BTC_USD'') = Some False"
  by (simp add: eval_defs side_matches_base_def)

subsection \<open>Rejections\<close>

text \<open>
  Claim C4, as amended: a call rejected for want of a price, for its quantity or for
  its notional leaves the cash balance, the positions, the trade history and all that
  \<^verbatim>\<open>Object.prototype\<close> holds as they were, and the mark prices too but for the order's
  own market: there the price of the request is stored when it is a number other than
  zero and \<^verbatim>\<open>NaN\<close> and the market is not named \<^verbatim>\<open>__proto__\<close> (an assignment under that
  name stores nothing). A call rejected for want of a price leaves the whole state as it
  was. (\<^verbatim>\<open>placeOrder\<close> calls \<^verbatim>\<open>mark\<close> before it validates anything.)
\<close>

theorem C4_rejection_keeps_all_but_mark:
  assumes "fst (placeOrder cfg now prm s) = Inl e"
    and "e = NoPriceAvailable \<or> e = InvalidQuantity \<or> e = NotionalLimitExceeded"
  shows "snd (placeOrder cfg now prm s) =
           (case p_price prm of
              None \<Rightarrow> s
            | Some v \<Rightarrow>
                if falsy v \<or> (p_market prm = ''__proto__'' \<and> lastPrice s ''__proto__'' = None)
                then s
                else s\<lparr>lastPrice := (lastPrice s)(p_market prm \<mapsto> v)\<rparr>) \<and>
         (e = NoPriceAvailable \<longrightarrow> snd (placeOrder cfg now prm s) = s)"
proof -
  have m: "snd (mark (p_market prm) (p_price prm) s) =
           (case p_price prm of
              None \<Rightarrow> s
            | Some v \<Rightarrow>
                if falsy v \<or> (p_market prm = ''__proto__'' \<and> lastPrice s ''__proto__'' = None)
                then s
                else s\<lparr>lastPrice := (lastPrice s)(p_market prm \<mapsto> v)\<rparr>)"
    by (auto simp add: mark_snd lastPriceSet_def split: option.split)
  show ?thesis
  proof (cases rule: placeOrder_outcomes [where prm = prm and s = s and cfg = cfg])
    case no_price
    have "snd (mark (p_market prm) (p_price prm) s) = s"
    proof (cases "p_price prm")
      case None
      then show ?thesis by (simp add: mark_snd)
    next
      case (Some v)
      show ?thesis
      proof (cases "falsy v")
        case True
        with Some show ?thesis by (simp add: mark_snd)
      next
        case False
        with Some no_price show ?thesis
          by (auto simp: mark_def lastPriceGet_def lastPriceSet_def protoGet_def Let_def
              split: if_splits option.splits)
      qed
    qed
    with no_price m show ?thesis
      by (simp add: placeOrder_no_price)
  next
    case (invalid_qty pv)
    with assms m show ?thesis by (auto simp add: placeOrder_invalid_qty)
  next
    case (over_limit pv)
    with assms m show ?thesis by (auto simp add: placeOrder_over_limit)
  next
    case (filled pv)
    from placeOrder_filled [OF filled refl, of now] assms show ?thesis by auto
  qed
qed

text \<open>
  The amended claim at an order over the notional limit: 1000 units at 100 against a
  cap of 10000 \<open>\<times>\<close> 2. The rejection leaves the fresh ledger with the mark price 100.
\<close>

theorem C4_rejection_keeps_all_but_mark_witness:
  "fst (placeOrder cfg0 1
          ((order0 ''BTC_USD'' Buy)\<lparr>p_size := Some (Fin 1000), p_price := Some (Fin 100)\<rparr>)
          (initState cfg0)) = Inl NotionalLimitExceeded \<and>
   snd (placeOrder cfg0 1
          ((order0 ''BTC_USD'' Buy)\<lparr>p_size := Some (Fin 1000), p_price := Some (Fin 100)\<rparr>)
          (initState cfg0)) =
     (initState cfg0)\<lparr>lastPrice := [''BTC_USD'' \<mapsto> Fin 100]\<rparr>"
proof -
  have h: "fst (placeOrder cfg0 1
          ((order0 ''BTC_USD'' Buy)\<lparr>p_size := Some (Fin 1000), p_price := Some (Fin 100)\<rparr>)
          (initState cfg0)) = Inl NotionalLimitExceeded"
    by (simp add: eval_defs)
  from C4_rejection_keeps_all_but_mark [OF h] h show ?thesis
    by (simp add: order0_def initState_def)
qed

text \<open>
  Claim C4 as stated (a rejected call leaves the entire ledger state, the mark prices
  included, exactly as before) fails: a request with a price of 100 and no size is
  rejected for its quantity, and the fresh ledger, which had no mark price for the
  market, has 100 afterwards.
\<close>

theorem C4_counterexample:
  "fst (placeOrder cfg0 1 ((order0 ''BTC_USD'' Buy)\<lparr>p_price := Some (Fin 100)\<rparr>)
          (initState cfg0)) = Inl InvalidQuantity \<and>
   lastPrice (initState cfg0) ''BTC_USD'' = None \<and>
   lastPrice (snd (placeOrder cfg0 1 ((order0 ''BTC_USD'' Buy)\<lparr>p_price := Some (Fin 100)\<rparr>)
          (initState cfg0))) ''BTC_USD'' = Some (Fin 100) \<and>
   snd (placeOrder cfg0 1 ((order0 ''BTC_USD'' Buy)\<lparr>p_price := Some (Fin 100)\<rparr>)
          (initState cfg0)) \<noteq> initState cfg0"
proof -
  have l: "lastPrice (snd (placeOrder cfg0 1
             ((order0 ''BTC_USD'' Buy)\<lparr>p_price := Some (Fin 100)\<rparr>) (initState cfg0)))
             ''BTC_USD'' = Some (Fin 100)"
    by (simp add: eval_defs)
  have n: "lastPrice (initState cfg0) ''BTC_USD'' = None"
    by (simp add: initState_def)
  have r: "fst (placeOrder cfg0 1 ((order0 ''BTC_USD'' Buy)\<lparr>p_price := Some (Fin 100)\<rparr>)
             (initState cfg0)) = Inl InvalidQuantity"
    by (simp add: eval_defs)
  from l n have "snd (placeOrder cfg0 1
             ((order0 ''BTC_USD'' Buy)\<lparr>p_price := Some (Fin 100)\<rparr>) (initState cfg0))
           \<noteq> initState cfg0"
    by auto
  with l n r show ?thesis by simp
qed

text \<open>
  Claim C5, as amended: when a price is resolvable (\<^verbatim>\<open>mark\<close> returns a truthy value),
  the call is rejected with "invalid quantity" if and only if the resolved quantity is
  neither a finite positive number nor \<^verbatim>\<open>Infinity\<close>; so \<^verbatim>\<open>NaN\<close>, zero, the negative
  numbers and \<^verbatim>\<open>-Infinity\<close> are rejected with this kind, and \<^verbatim>\<open>Infinity\<close> goes on to the
  notional check. The resolved quantity is the notional divided by the price as a number
  when a notional was given, the raw size otherwise.
\<close>

theorem C5_invalid_quantity_iff:
  assumes "fst (mark (p_market prm) (p_price prm) s) = pv" and "\<not> falsy_val pv"
  shows "(fst (placeOrder cfg now prm s) = Inl InvalidQuantity) =
           (\<not> (finite_positive (resolveQty prm (toNum pv)) \<or> resolveQty prm (toNum pv) = PInf))"
proof -
  have "(fst (placeOrder cfg now prm s) = Inl InvalidQuantity) =
          (falsy (resolveQty prm (toNum pv)) \<or> jle (resolveQty prm (toNum pv)) (Fin 0))"
  proof (cases rule: placeOrder_outcomes [where prm = prm and s = s and cfg = cfg])
    case no_price
    with assms show ?thesis by simp
  next
    case (invalid_qty q)
    with assms have "q = pv" by simp
    with invalid_qty show ?thesis
      by (simp add: placeOrder_invalid_qty)
  next
    case (over_limit q)
    with assms have "q = pv" by simp
    with over_limit show ?thesis
      by (simp add: placeOrder_over_limit)
  next
    case (filled q)
    with assms have qp: "q = pv" by simp
    from placeOrder_filled [OF filled refl, of now]
    have "fst (placeOrder cfg now prm s) \<noteq> Inl InvalidQuantity"
      by auto
    with filled qp show ?thesis
      by simp
  qed
  then show ?thesis
    by (simp only: invalid_qty_iff)
qed

text \<open>
  The amended claim at a size that is no number (\<^verbatim>\<open>Number("abc")\<close> is \<^verbatim>\<open>NaN\<close>) and a
  price of 100: the call is rejected with "invalid quantity".
\<close>

theorem C5_invalid_quantity_iff_witness:
  "fst (placeOrder cfg0 1
          ((order0 ''BTC_USD'' Buy)\<lparr>p_size := Some NaN, p_price := Some (Fin 100)\<rparr>)
          (initState cfg0)) = Inl InvalidQuantity"
  using C5_invalid_quantity_iff [of
      "(order0 ''BTC_USD'' Buy)\<lparr>p_size := Some NaN, p_price := Some (Fin 100)\<rparr>"
      "initState cfg0" "VNum (Fin 100)" cfg0 1]
  by (simp add: mark_def lastPriceSet_def lastPriceGet_def initState_def order0_def
      resolveQty_def)

text \<open>
  Claim C5 as stated (rejected with "invalid quantity" exactly when the resolved quantity
  is not a finite positive number; a non-finite one gets this kind and no other) fails
  for \<^verbatim>\<open>Infinity\<close>: a size of \<^verbatim>\<open>"Infinity"\<close> at a price of 100 passes
  \<^verbatim>\<open>!qty || qty<=0\<close> and is rejected by the notional check instead.
\<close>

theorem C5_counterexample:
  "fst (mark ''BTC_USD'' (Some (Fin 100)) (initState cfg0)) = VNum (Fin 100) \<and>
   resolveQty ((order0 ''BTC_USD'' Buy)\<lparr>p_size := Some PInf, p_price := Some (Fin 100)\<rparr>)
     (Fin 100) = PInf \<and>
   \<not> finite_positive PInf \<and>
   fst (placeOrder cfg0 1
          ((order0 ''BTC_USD'' Buy)\<lparr>p_size := Some PInf, p_price := Some (Fin 100)\<rparr>)
          (initState cfg0)) = Inl NotionalLimitExceeded \<and>
   fst (placeOrder cfg0 1
          ((order0 ''BTC_USD'' Buy)\<lparr>p_size := Some PInf, p_price := Some (Fin 100)\<rparr>)
          (initState cfg0)) \<noteq> Inl InvalidQuantity"
  by (simp add: eval_defs)

subsection \<open>Fills that open or add, and the round trip\<close>






subsection \<open>The mark price\<close>

text \<open>
  Claim C8, as amended: for every market other than \<^verbatim>\<open>__proto__\<close> and every supplied
  price other than zero and \<^verbatim>\<open>NaN\<close>, \<^verbatim>\<open>mark\<close> stores the price as the market's own
  entry and returns it; under the name \<^verbatim>\<open>__proto__\<close> nothing is stored and \<^verbatim>\<open>mark\<close>
  returns \<^verbatim>\<open>Object.prototype\<close>. When the supplied price is zero or \<^verbatim>\<open>NaN\<close>, or none is
  supplied, \<^verbatim>\<open>mark\<close> changes nothing and returns what \<^verbatim>\<open>state.lastPrice[market]\<close> reads:
  the stored price if there is one, and otherwise the member of that name of
  \<^verbatim>\<open>Object.prototype\<close> (itself for \<^verbatim>\<open>__proto__\<close>, a function for \<^verbatim>\<open>constructor\<close> and the
  like, what an order on \<^verbatim>\<open>__proto__\<close> has written for the five property names of a
  position), which is \<^verbatim>\<open>undefined\<close> for every other name.
\<close>

theorem C8_mark_truthy_price:
  "(\<not> falsy v \<and> mkt \<noteq> ''__proto__'' \<longrightarrow>
      mark mkt (Some v) s = (VNum v, s\<lparr>lastPrice := (lastPrice s)(mkt \<mapsto> v)\<rparr>)) \<and>
   (\<not> falsy v \<and> lastPrice s ''__proto__'' = None \<longrightarrow>
      mark ''__proto__'' (Some v) s = (VObj ObjectPrototype, s)) \<and>
   (falsy v \<longrightarrow> mark mkt (Some v) s = (lastPriceGet s mkt, s)) \<and>
   mark mkt None s = (lastPriceGet s mkt, s) \<and>
   lastPriceGet s mkt =
     (case lastPrice s mkt of
        Some x \<Rightarrow> VNum x
      | None \<Rightarrow>
          if mkt = ''__proto__'' then VObj ObjectPrototype
          else if mkt \<in> set builtin_names then VObj (BuiltinFn mkt)
          else if mkt \<in> {''side'', ''base'', ''entry'', ''leverage'', ''realizedPnl''}
          then protoGet (objectProto s) mkt
          else VUndef)"
  by (auto simp add: mark_def lastPriceGet_def lastPriceSet_def protoGet_def Let_def
      split: option.split)

text \<open>The amended claim at the price 100, and at no price, on a fresh ledger.\<close>

theorem C8_mark_truthy_price_witness:
  "mark ''BTC_USD'' (Some (Fin 100)) (initState cfg0) =
     (VNum (Fin 100), (initState cfg0)\<lparr>lastPrice := [''BTC_USD'' \<mapsto> Fin 100]\<rparr>) \<and>
   mark ''BTC_USD'' None (initState cfg0) = (VUndef, initState cfg0)"
  using C8_mark_truthy_price [of "Fin 100" "''BTC_USD''" "initState cfg0"]
  by (simp add: initState_def builtin_names_def)

text \<open>
  Claim C8 as stated (every supplied price overwrites the stored one and is returned;
  with no price the stored value, possibly absent, is returned) fails for the price 0:
  with 100 stored for the market, \<^verbatim>\<open>mark(market, 0)\<close> returns 100 and leaves it. It fails
  for the market \<^verbatim>\<open>__proto__\<close> too, where the price 100 is not stored and
  \<^verbatim>\<open>Object.prototype\<close> is returned, and for \<^verbatim>\<open>constructor\<close>, where nothing is stored
  and a function is returned.
\<close>

theorem C8_counterexample:
  "mark ''BTC_USD'' (Some (Fin 0)) (snd (mark ''BTC_USD'' (Some (Fin 100)) (initState cfg0))) =
     (VNum (Fin 100), snd (mark ''BTC_USD'' (Some (Fin 100)) (initState cfg0))) \<and>
   VNum (Fin 100) \<noteq> VNum (Fin 0) \<and>
   mark ''__proto__'' (Some (Fin 100)) (initState cfg0) =
     (VObj ObjectPrototype, initState cfg0) \<and>
   mark ''constructor'' None (initState cfg0) =
     (VObj (BuiltinFn ''constructor''), initState cfg0) \<and>
   lastPrice (initState cfg0) ''constructor'' = None"
  by (simp add: eval_defs)

subsection \<open>What an order leaves alone\<close>

text \<open>
  Claim C9: no call to \<^verbatim>\<open>placeOrder\<close>, accepted or rejected, changes the cash balance;
  the balance enters only the notional check, which rejects a validated order exactly
  when \<open>quantity \<times> price > balance \<times> leverage\<close>.
\<close>

theorem C9_cash_balance_unchanged:
  "balances (snd (placeOrder cfg now prm s)) = balances s \<and>
   (fst (placeOrder cfg now prm s) = Inl NotionalLimitExceeded) =
     (\<not> falsy_val (fst (mark (p_market prm) (p_price prm) s)) \<and>
      \<not> (falsy (resolveQty prm (toNum (fst (mark (p_market prm) (p_price prm) s)))) \<or>
         jle (resolveQty prm (toNum (fst (mark (p_market prm) (p_price prm) s)))) (Fin 0)) \<and>
      jgt (jmul (resolveQty prm (toNum (fst (mark (p_market prm) (p_price prm) s))))
                (toNum (fst (mark (p_market prm) (p_price prm) s))))
          (jmul (USDC (balances s)) (levOf cfg prm)))"
proof (cases rule: placeOrder_outcomes [where prm = prm and s = s and cfg = cfg])
  case no_price
  then show ?thesis by (simp add: placeOrder_no_price mark_frame)
next
  case (invalid_qty pv)
  then show ?thesis by (auto simp add: placeOrder_invalid_qty mark_frame)
next
  case (over_limit pv)
  then show ?thesis by (simp add: placeOrder_over_limit mark_frame)
next
  case (filled pv)
  from placeOrder_filled [OF filled refl, of now] filled show ?thesis
    by (auto simp add: applyFill_frame mark_frame)
qed

text \<open>The claim at an accepted order: a buy of 5 at 100 leaves the balance at 10000.\<close>

theorem C9_cash_balance_unchanged_witness:
  "balances (snd (placeOrder cfg0 1
      ((order0 ''BTC_USD'' Buy)\<lparr>p_size := Some (Fin 5), p_price := Some (Fin 100)\<rparr>)
      (initState cfg0))) = \<lparr>USDC = Fin 10000\<rparr>"
  using C9_cash_balance_unchanged [of cfg0 1
      "(order0 ''BTC_USD'' Buy)\<lparr>p_size := Some (Fin 5), p_price := Some (Fin 100)\<rparr>"
      "initState cfg0"]
  by (simp add: initState_def cfg0_def)

text \<open>
  Claim C10, as amended: a call to \<^verbatim>\<open>placeOrder\<close> on a market \<open>M\<close> for which
  \<^verbatim>\<open>state.positions[M]\<close> is not \<^verbatim>\<open>Object.prototype\<close>, accepted or rejected, leaves the
  position and the mark price of every other market as they were, both the entries the
  state owns and what \<^verbatim>\<open>state.positions[M']\<close> and \<^verbatim>\<open>state.lastPrice[M']\<close> read, and
  leaves \<^verbatim>\<open>Object.prototype\<close> and every function other than the one the market may name
  as they were; and no call reads the own entries of another market: with those replaced
  by anything, the call returns the same result and makes the same change.
  \<^verbatim>\<open>state.positions[M]\<close> is \<^verbatim>\<open>Object.prototype\<close> for \<open>M\<close> = \<^verbatim>\<open>__proto__\<close>, and for
  \<^verbatim>\<open>entry\<close> once an order on \<^verbatim>\<open>__proto__\<close> has been accepted.
\<close>

theorem C10_other_markets_untouched:
  assumes "m' \<noteq> p_market prm" and "positionsGet s (p_market prm) \<noteq> ProtoObj"
  shows "lastPrice (snd (placeOrder cfg now prm s)) m' = lastPrice s m' \<and>
         positions (snd (placeOrder cfg now prm s)) m' = positions s m' \<and>
         lastPriceGet (snd (placeOrder cfg now prm s)) m' = lastPriceGet s m' \<and>
         positionsGet (snd (placeOrder cfg now prm s)) m' = positionsGet s m' \<and>
         objectProto (snd (placeOrder cfg now prm s)) = objectProto s \<and>
         (\<forall>n. positionsGet s (p_market prm) \<noteq> FnObj n \<longrightarrow>
              builtinFn (snd (placeOrder cfg now prm s)) n = builtinFn s n) \<and>
         placeOrder cfg now prm (set_other m' x y s) =
           (fst (placeOrder cfg now prm s), set_other m' x y (snd (placeOrder cfg now prm s)))"
proof -
  note f = placeOrder_frame_other [OF assms, where cfg = cfg and now = now]
  have "lastPriceGet (snd (placeOrder cfg now prm s)) m' = lastPriceGet s m'"
    by (rule lastPriceGet_cong) (rule f)+
  moreover have "positionsGet (snd (placeOrder cfg now prm s)) m' = positionsGet s m'"
    by (rule positionsGet_cong) (rule f)+
  ultimately show ?thesis
    using f placeOrder_set_other [OF assms(1)] by simp
qed

text \<open>
  The amended claim at an order for \<open>ETH_USD\<close> on a ledger that holds 5 \<open>BTC_USD\<close> bought
  at 100: the \<open>BTC_USD\<close> position and mark price stay.
\<close>

theorem C10_other_markets_untouched_witness:
  "positions (placeOrders cfg0
      [(1, (order0 ''BTC_USD'' Buy)\<lparr>p_size := Some (Fin 5), p_price := Some (Fin 100)\<rparr>),
       (2, (order0 ''ETH_USD'' Sell)\<lparr>p_size := Some (Fin 1), p_price := Some (Fin 50)\<rparr>)]
      (initState cfg0)) ''BTC_USD'' =
     Some \<lparr>side = Some Long, base = Some (Fin 5), entry = Some (VNum (Fin 100)),
           leverage = Some (Fin 2), realizedPnl = Some (Fin 0)\<rparr> \<and>
   lastPrice (placeOrders cfg0
      [(1, (order0 ''BTC_USD'' Buy)\<lparr>p_size := Some (Fin 5), p_price := Some (Fin 100)\<rparr>),
       (2, (order0 ''ETH_USD'' Sell)\<lparr>p_size := Some (Fin 1), p_price := Some (Fin 50)\<rparr>)]
      (initState cfg0)) ''BTC_USD'' = Some (Fin 100)"
proof -
  have s1: "snd (placeOrder cfg0 1
      ((order0 ''BTC_USD'' Buy)\<lparr>p_size := Some (Fin 5), p_price := Some (Fin 100)\<rparr>)
      (initState cfg0)) =
    (initState cfg0)\<lparr>lastPrice := [''BTC_USD'' \<mapsto> Fin 100],
       positions := [''BTC_USD'' \<mapsto>
         \<lparr>side = Some Long, base = Some (Fin 5), entry = Some (VNum (Fin 100)),
          leverage = Some (Fin 2), realizedPnl = Some (Fin 0)\<rparr>],
       trades := [\<lparr>fill_ts = 1, fill_market = ''BTC_USD'', fill_side = Buy,
                  fill_qty = Fin 5, fill_price = VNum (Fin 100), fill_notional = Fin 500,
                  fill_leverage = Fin 2\<rparr>]\<rparr>"
    by (simp add: eval_defs)
  have ne: "''BTC_USD'' \<noteq>
      p_market ((order0 ''ETH_USD'' Sell)\<lparr>p_size := Some (Fin 1), p_price := Some (Fin 50)\<rparr>)"
    by (simp add: order0_def)
  have np: "positionsGet (snd (placeOrder cfg0 1
      ((order0 ''BTC_USD'' Buy)\<lparr>p_size := Some (Fin 5), p_price := Some (Fin 100)\<rparr>)
      (initState cfg0)))
      (p_market ((order0 ''ETH_USD'' Sell)\<lparr>p_size := Some (Fin 1), p_price := Some (Fin 50)\<rparr>))
      \<noteq> ProtoObj"
    unfolding s1
    by (simp add: order0_def positionsGet_def protoGet_def builtin_names_def initState_def
        noProps_def)
  from C10_other_markets_untouched [OF ne np, of cfg0 2 None None] show ?thesis
    by (simp add: s1)
qed

text \<open>
  Claim C10 as stated (for every market) fails for an order on the market \<^verbatim>\<open>__proto__\<close>:
  on a fresh ledger a buy of size 1 with price 100 is accepted, \<^verbatim>\<open>applyFill\<close> assigns the
  five properties to \<^verbatim>\<open>Object.prototype\<close>, and \<^verbatim>\<open>state.lastPrice["leverage"]\<close> and
  \<^verbatim>\<open>state.positions["leverage"]\<close>, \<^verbatim>\<open>undefined\<close> before, read 2 afterwards.
\<close>

theorem C10_counterexample:
  "''leverage'' \<noteq> ''__proto__'' \<and>
   (\<exists>r. fst (placeOrder cfg0 1
            ((order0 ''__proto__'' Buy)\<lparr>p_size := Some (Fin 1), p_price := Some (Fin 100)\<rparr>)
            (initState cfg0)) = Inr r) \<and>
   lastPriceGet (initState cfg0) ''leverage'' = VUndef \<and>
   lastPriceGet (snd (placeOrder cfg0 1
            ((order0 ''__proto__'' Buy)\<lparr>p_size := Some (Fin 1), p_price := Some (Fin 100)\<rparr>)
            (initState cfg0))) ''leverage'' = VNum (Fin 2) \<and>
   positionsGet (initState cfg0) ''leverage'' = Prim VUndef \<and>
   positionsGet (snd (placeOrder cfg0 1
            ((order0 ''__proto__'' Buy)\<lparr>p_size := Some (Fin 1), p_price := Some (Fin 100)\<rparr>)
            (initState cfg0))) ''leverage'' = Prim (VNum (Fin 2))"
  by (simp add: eval_defs)

end
